theory Spec2Isabelle
  imports Main
begin

text \<open>
  A client for HTTP with authentication middleware: a transport interface
  (\<^verbatim>\<open>HTTPClient\<close>), middlewares that wrap a transport and set the \<open>Authorization\<close>
  header of the request (\<^verbatim>\<open>BasicAuthMiddleware\<close>, \<^verbatim>\<open>APIKeyAuthMiddleware\<close>), and a client
  (\<^verbatim>\<open>CustomClient\<close>) whose \<^verbatim>\<open>Get\<close> builds a request, sends it through the wrapped
  transport and reads the response body.  Transports and body streams are arbitrary
  implementations of their interfaces: they act on a world \<open>'w\<close> that is passed through
  every call.
\<close>

section \<open>Data model\<close>

text \<open>
  Go strings and byte slices are byte sequences; \<open>string\<close> (a list of 8-bit
  characters) models both.
\<close>

type_synonym bytes = string

text \<open>
  Go error values.  \<open>EOF\<close> is the sentinel \<^verbatim>\<open>io.EOF\<close>, \<open>New msg\<close> an opaque error with
  message \<open>msg\<close>, and \<open>Errorf_w prefix err\<close> the value of
  \<^verbatim>\<open>fmt.Errorf(prefix + "%w", err)\<close>: its message is the prefix followed by the
  message of \<open>err\<close>, and it unwraps to \<open>err\<close>.
\<close>

datatype error = EOF | New string | Errorf_w string error

fun Error :: "error \<Rightarrow> string" where
  "Error EOF = ''EOF''"
| "Error (New msg) = msg"
| "Error (Errorf_w prefix err) = prefix @ Error err"

fun Unwrap :: "error \<Rightarrow> error option" where
  "Unwrap (Errorf_w prefix err) = Some err"
| "Unwrap EOF = None"
| "Unwrap (New msg) = None"

text \<open>
  An \<^verbatim>\<open>io.ReadCloser\<close> is an object with two methods acting on the world \<open>'w\<close>
  (connections, buffers, whatever the implementation keeps).  \<open>Read\<close> returns the
  bytes it delivered and an optional error, \<open>Close\<close> an optional error.
\<close>

record 'w ReadCloser =
  Read :: "'w \<Rightarrow> (bytes \<times> error option) \<times> 'w"
  Close :: "'w \<Rightarrow> error option \<times> 'w"

text \<open>
  \<^verbatim>\<open>http.Header\<close> is a map from header names to value lists.  A Go map may be nil:
  \<open>NilHeader\<close> is the nil map, which reads as empty and cannot be written, and
  \<open>HeaderMap m\<close> an allocated map with the entries \<open>m\<close>.
\<close>

datatype Header = NilHeader | HeaderMap "string \<rightharpoonup> string list"

record ('w, 'c, 'u) Request =
  Method :: string
  URL :: 'u
  Header :: Header
  ReqBody :: "'w ReadCloser option"
  Ctx :: 'c

record 'w Response =
  StatusCode :: int
  RespHeader :: Header
  Body :: "'w ReadCloser option"

text \<open>
  The interface \<^verbatim>\<open>HTTPClient\<close> has the single method \<^verbatim>\<open>Do\<close>; a value of the interface
  is modelled by that method.  A call either returns a response pointer and an error,
  either of which may be nil (\<open>None\<close>), or it panics; in both cases it leaves a world
  behind.
\<close>

datatype 'w DoResult = Returns "'w Response option" "error option" | Panics

type_synonym ('w, 'c, 'u) HTTPClient =
  "('w, 'c, 'u) Request \<Rightarrow> 'w \<Rightarrow> 'w DoResult \<times> 'w"

type_synonym ('w, 'c, 'u) Middleware =
  "('w, 'c, 'u) HTTPClient \<Rightarrow> ('w, 'c, 'u) HTTPClient"

record ('w, 'c, 'u) CustomClient =
  httpClient :: "('w, 'c, 'u) HTTPClient"

text \<open>What a call of \<^verbatim>\<open>Get\<close> ends with: its two results, or a run-time panic.\<close>

datatype GetResult = Return "bytes option" "error option" | Panic

section \<open>Library functions used by the program\<close>

text \<open>
  \<^verbatim>\<open>Header.Set\<close> replaces the values of a key by the single given value.  It assigns to
  an entry of the map, which panics when the map is nil: the result is then \<open>None\<close>.
\<close>

fun Header_Set :: "Header \<Rightarrow> string \<Rightarrow> string \<Rightarrow> Header option" where
  "Header_Set NilHeader key v = None"
| "Header_Set (HeaderMap m) key v = Some (HeaderMap (m(key \<mapsto> [v])))"

text \<open>
  \<^verbatim>\<open>Header.Get\<close> returns the first value of a key, or the empty string; reading a nil
  map finds no key.
\<close>

fun Header_Get :: "Header \<Rightarrow> string \<Rightarrow> string" where
  "Header_Get NilHeader key = []"
| "Header_Get (HeaderMap m) key =
     (case m key of None \<Rightarrow> [] | Some [] \<Rightarrow> [] | Some (v # vs) \<Rightarrow> v)"

text \<open>
  \<^verbatim>\<open>io.ReadAll\<close> calls \<open>Read\<close> until it reports an error, appending what each call
  delivered; \<open>EOF\<close> is turned into a nil error.  A reader that never reports an
  error keeps the loop running for ever: the result is then \<open>None\<close>.
\<close>

partial_function (option) ReadAll_loop ::
  "('w \<Rightarrow> (bytes \<times> error option) \<times> 'w) \<Rightarrow> bytes \<Rightarrow> 'w \<Rightarrow> ((bytes \<times> error option) \<times> 'w) option"
where
  "ReadAll_loop rd b s =
     (case rd s of
        ((d, None), s') \<Rightarrow> ReadAll_loop rd (b @ d) s'
      | ((d, Some err), s') \<Rightarrow> Some ((b @ d, if err = EOF then None else Some err), s'))"

definition ReadAll ::
  "'w ReadCloser \<Rightarrow> 'w \<Rightarrow> ((bytes \<times> error option) \<times> 'w) option" where
  "ReadAll r s = ReadAll_loop (Read r) [] s"

text \<open>
  \<^verbatim>\<open>base64.StdEncoding\<close>.  \<open>encodeStd\<close> is its alphabet and \<open>decodeMap\<close> the inverse
  table the library builds from it.  A byte is widened with \<open>uint\<close> and narrowed with
  \<open>byte\<close>; the shifts and masks on the 24-bit quantum are written as division and
  remainder by powers of two, the disjoint \<^verbatim>\<open>|\<close> as a sum.
\<close>

definition encodeStd :: string where
  "encodeStd = ''ABCDEFGHIJKLMNOPQRSTUVWXYZabcdefghijklmnopqrstuvwxyz0123456789+/''"

definition encode6 :: "nat \<Rightarrow> char" where
  "encode6 n = encodeStd ! n"

definition decodeMap :: "char \<rightharpoonup> nat" where
  "decodeMap = map_of (zip encodeStd [0..<64])"

definition uint :: "char \<Rightarrow> nat" where
  "uint c = of_char c"

definition byte :: "nat \<Rightarrow> char" where
  "byte n = char_of n"

fun EncodeToString :: "bytes \<Rightarrow> string" where
  "EncodeToString (a # b # c # src) =
     (let val = uint a * 65536 + uint b * 256 + uint c
      in encode6 (val div 262144 mod 64) # encode6 (val div 4096 mod 64)
         # encode6 (val div 64 mod 64) # encode6 (val mod 64) # EncodeToString src)"
| "EncodeToString [a, b] =
     (let val = uint a * 65536 + uint b * 256
      in [encode6 (val div 262144 mod 64), encode6 (val div 4096 mod 64),
          encode6 (val div 64 mod 64), CHR ''=''])"
| "EncodeToString [a] =
     (let val = uint a * 65536
      in [encode6 (val div 262144 mod 64), encode6 (val div 4096 mod 64),
          CHR ''='', CHR ''=''])"
| "EncodeToString [] = []"

text \<open>
  Decoding works on quanta of four characters.  Padding is accepted in the last
  quantum only, as one or two \<^verbatim>\<open>=\<close> at its end; every other character must be in the
  alphabet; an incomplete quantum is an error.
\<close>

fun decode_quanta :: "string \<Rightarrow> bytes option" where
  "decode_quanta [] = Some []"
| "decode_quanta [w, x, y, z] =
     (case (decodeMap w, decodeMap x) of
        (Some d0, Some d1) \<Rightarrow>
          if y = CHR ''='' then
            (if z = CHR ''='' then
               (let val = d0 * 262144 + d1 * 4096 in Some [byte (val div 65536)])
             else None)
          else
            (case decodeMap y of
               None \<Rightarrow> None
             | Some d2 \<Rightarrow>
                 if z = CHR ''='' then
                   (let val = d0 * 262144 + d1 * 4096 + d2 * 64
                    in Some [byte (val div 65536), byte (val div 256)])
                 else
                   (case decodeMap z of
                      None \<Rightarrow> None
                    | Some d3 \<Rightarrow>
                        (let val = d0 * 262144 + d1 * 4096 + d2 * 64 + d3
                         in Some [byte (val div 65536), byte (val div 256), byte val])))
      | _ \<Rightarrow> None)"
| "decode_quanta (w # x # y # z # src) =
     (case (decodeMap w, decodeMap x, decodeMap y, decodeMap z) of
        (Some d0, Some d1, Some d2, Some d3) \<Rightarrow>
          (let val = d0 * 262144 + d1 * 4096 + d2 * 64 + d3
           in map_option (\<lambda>dst. byte (val div 65536) # byte (val div 256) # byte val # dst)
                (decode_quanta src))
      | _ \<Rightarrow> None)"
| "decode_quanta _ = None"

text \<open>\<^verbatim>\<open>DecodeString\<close> ignores carriage returns and line feeds in its input.\<close>

definition DecodeString :: "string \<Rightarrow> bytes option" where
  "DecodeString s = decode_quanta (filter (\<lambda>c. c \<noteq> CHR 0x0D \<and> c \<noteq> CHR 0x0A) s)"

text \<open>
  \<^verbatim>\<open>strings.Cut\<close> for a one-byte separator: the text before and after its first
  occurrence, and whether it occurs.
\<close>

definition Cut :: "string \<Rightarrow> char \<Rightarrow> string \<times> string \<times> bool" where
  "Cut s sep =
     (if sep \<in> set s
      then (takeWhile (\<lambda>c. c \<noteq> sep) s, tl (dropWhile (\<lambda>c. c \<noteq> sep) s), True)
      else (s, [], False))"

text \<open>\<^verbatim>\<open>ascii.EqualFold\<close>: equality up to the case of ASCII letters.\<close>

definition lower :: "char \<Rightarrow> char" where
  "lower c = (if 65 \<le> uint c \<and> uint c \<le> 90 then byte (uint c + 32) else c)"

definition EqualFold :: "string \<Rightarrow> string \<Rightarrow> bool" where
  "EqualFold s t = (map lower s = map lower t)"

text \<open>
  The two halves of basic authentication in \<^verbatim>\<open>net/http\<close>: \<^verbatim>\<open>Request.SetBasicAuth\<close>,
  which the program calls, and \<^verbatim>\<open>parseBasicAuth\<close> (behind \<^verbatim>\<open>Request.BasicAuth\<close>), the
  decoder of the same convention, with which a receiver reads the credentials back.
  \<^verbatim>\<open>SetBasicAuth\<close> writes the header with \<^verbatim>\<open>Header.Set\<close> and panics with it (\<open>None\<close>).
\<close>

definition basicAuth :: "string \<Rightarrow> string \<Rightarrow> string" where
  "basicAuth username password = EncodeToString (username @ '':'' @ password)"

definition SetBasicAuth ::
  "('w, 'c, 'u) Request \<Rightarrow> string \<Rightarrow> string \<Rightarrow> ('w, 'c, 'u) Request option" where
  "SetBasicAuth r username password =
     (case Header_Set (Header r) ''Authorization'' (''Basic '' @ basicAuth username password) of
        None \<Rightarrow> None
      | Some h \<Rightarrow> Some (r\<lparr>Header := h\<rparr>))"

definition parseBasicAuth :: "string \<Rightarrow> (string \<times> string) option" where
  "parseBasicAuth auth =
     (if length auth < length ''Basic '' \<or> \<not> EqualFold (take (length ''Basic '') auth) ''Basic ''
      then None
      else (case DecodeString (drop (length ''Basic '') auth) of
              None \<Rightarrow> None
            | Some cs \<Rightarrow>
                (case Cut cs (CHR '':'') of
                   (username, password, True) \<Rightarrow> Some (username, password)
                 | (username, password, False) \<Rightarrow> None)))"

text \<open>
  \<^verbatim>\<open>http.NewRequestWithContext\<close> parses the URL and allocates the request with an empty
  header map.  The URL parser is a parameter; the method check of the library accepts
  the literal \<^verbatim>\<open>"GET"\<close> that the program passes, and contexts are non-nil values.
\<close>

definition NewRequestWithContext ::
  "(string \<Rightarrow> error + 'u) \<Rightarrow> 'c \<Rightarrow> string \<Rightarrow> string \<Rightarrow> 'w ReadCloser option
     \<Rightarrow> error + ('w, 'c, 'u) Request" where
  "NewRequestWithContext parse ctx method url body =
     (case parse url of
        Inl err \<Rightarrow> Inl err
      | Inr u \<Rightarrow> Inr \<lparr>Method = method, URL = u, Header = HeaderMap Map.empty, ReqBody = body,
                 Ctx = ctx\<rparr>)"

section \<open>The program\<close>

definition Do :: "('w, 'c, 'u) HTTPClient \<Rightarrow> ('w, 'c, 'u) HTTPClient" where
  "Do fn req = fn req"

text \<open>
  The two middlewares.  The request is a pointer in Go and the header is set in
  place; the wrapped client is then called with that same request, which is the
  updated record here.  When the header map of the request is nil, setting the header
  panics and the wrapped client is not called.
\<close>

definition BasicAuthMiddleware :: "string \<Rightarrow> string \<Rightarrow> ('w, 'c, 'u) Middleware" where
  "BasicAuthMiddleware username password =
     (\<lambda>client. (\<lambda>req s.
        case SetBasicAuth req username password of
          None \<Rightarrow> (Panics, s)
        | Some req' \<Rightarrow> Do client req' s))"

definition APIKeyAuthMiddleware :: "string \<Rightarrow> ('w, 'c, 'u) Middleware" where
  "APIKeyAuthMiddleware apiKey =
     (\<lambda>client. (\<lambda>req s.
        case Header_Set (Header req) ''Authorization'' (''Bearer '' @ apiKey) of
          None \<Rightarrow> (Panics, s)
        | Some h \<Rightarrow> Do client (req\<lparr>Header := h\<rparr>) s))"

text \<open>The \<^verbatim>\<open>for ... range middlewares\<close> loop of \<^verbatim>\<open>NewCustomClient\<close>.\<close>

fun apply_middlewares ::
  "('w, 'c, 'u) HTTPClient \<Rightarrow> ('w, 'c, 'u) Middleware list \<Rightarrow> ('w, 'c, 'u) HTTPClient" where
  "apply_middlewares baseClient [] = baseClient"
| "apply_middlewares baseClient (middleware # middlewares) =
     apply_middlewares (middleware baseClient) middlewares"

definition NewCustomClient ::
  "('w, 'c, 'u) HTTPClient \<Rightarrow> ('w, 'c, 'u) Middleware list \<Rightarrow> ('w, 'c, 'u) CustomClient" where
  "NewCustomClient baseClient middlewares =
     \<lparr>httpClient = apply_middlewares baseClient middlewares\<rparr>"

text \<open>
  \<^verbatim>\<open>Get\<close>.  The deferred \<open>Close\<close> runs when the function returns, after the body has
  been read, on both return paths; its result is discarded.  Evaluating
  \<^verbatim>\<open>resp.Body.Close\<close> for a nil \<open>resp\<close> or a nil \<open>Body\<close> panics at the \<^verbatim>\<open>defer\<close>
  statement, before anything is read.  A panic of the send passes through \<open>Get\<close>,
  which has deferred nothing yet.  The result \<open>None\<close> means that \<^verbatim>\<open>io.ReadAll\<close> does not
  return.
\<close>

definition Get ::
  "(string \<Rightarrow> error + 'u) \<Rightarrow> ('w, 'c, 'u) CustomClient \<Rightarrow> 'c \<Rightarrow> string \<Rightarrow> 'w
     \<Rightarrow> (GetResult \<times> 'w) option" where
  "Get parse c ctx url s =
     (case NewRequestWithContext parse ctx ''GET'' url None of
        Inl err \<Rightarrow> Some (Return None (Some (Errorf_w ''failed to create request: '' err)), s)
      | Inr req \<Rightarrow>
          (case Do (httpClient c) req s of
             (Panics, s1) \<Rightarrow> Some (Panic, s1)
           | (Returns resp (Some err), s1) \<Rightarrow>
               Some (Return None (Some (Errorf_w ''request failed: '' err)), s1)
           | (Returns None None, s1) \<Rightarrow> Some (Panic, s1)
           | (Returns (Some r) None, s1) \<Rightarrow>
               (case Body r of
                  None \<Rightarrow> Some (Panic, s1)
                | Some rc \<Rightarrow>
                    (case ReadAll rc s1 of
                       None \<Rightarrow> None
                     | Some ((body, Some err), s2) \<Rightarrow>
                         Some (Return None
                                 (Some (Errorf_w ''failed to read response body: '' err)),
                               snd (Close rc s2))
                     | Some ((body, None), s2) \<Rightarrow>
                         Some (Return (Some body) None, snd (Close rc s2))))))"

section \<open>Notions used to state the properties\<close>

text \<open>
  What a body stream delivers when it is read from world \<open>s\<close> until it reports an
  error: \<open>drains rd s ds err s'\<close> holds when the successive calls of \<open>rd\<close> deliver the
  bytes \<open>ds\<close> in all, the last of them reports \<open>err\<close> (\<open>EOF\<close> at the regular end of
  the stream), and the world is then \<open>s'\<close>.
\<close>

inductive drains ::
  "('w \<Rightarrow> (bytes \<times> error option) \<times> 'w) \<Rightarrow> 'w \<Rightarrow> bytes \<Rightarrow> error \<Rightarrow> 'w \<Rightarrow> bool"
  for rd :: "'w \<Rightarrow> (bytes \<times> error option) \<times> 'w"
where
  drains_last: "rd s = ((d, Some err), s') \<Longrightarrow> drains rd s d err s'"
| drains_more: "rd s = ((d, None), s1) \<Longrightarrow> drains rd s1 ds err s' \<Longrightarrow> drains rd s (d @ ds) err s'"

code_pred drains .

text \<open>
  A middleware that only rewrites the request before it delegates; on a request with
  an allocated header map both middlewares of the program act like one.
\<close>

definition request_decorator ::
  "(('w, 'c, 'u) Request \<Rightarrow> ('w, 'c, 'u) Request) \<Rightarrow> ('w, 'c, 'u) Middleware" where
  "request_decorator f = (\<lambda>client. (\<lambda>req. Do client (f req)))"

text \<open>Strings without control characters (bytes below 32, and 127).\<close>

definition no_control :: "string \<Rightarrow> bool" where
  "no_control s = list_all (\<lambda>c. 32 \<le> uint c \<and> uint c \<noteq> 127) s"

text \<open>The 24-bit quantum that the encoder builds from three bytes.\<close>

definition val3 :: "char \<Rightarrow> char \<Rightarrow> char \<Rightarrow> nat" where
  "val3 a b c = uint a * 65536 + uint b * 256 + uint c"

subsection \<open>Test doubles\<close>

text \<open>
  A body over a world that counts the \<open>Read\<close> and the \<open>Close\<close> calls made so far: it
  delivers the given chunks one per call, then reports \<open>final\<close> on every further call.
\<close>

definition scriptBody :: "bytes list \<Rightarrow> error \<Rightarrow> (nat \<times> nat) ReadCloser" where
  "scriptBody chunks final =
     \<lparr>Read = (\<lambda>(i, k). if i < length chunks then ((chunks ! i, None), (Suc i, k))
                        else (([], Some final), (Suc i, k))),
      Close = (\<lambda>(i, k). (None, (i, Suc k)))\<rparr>"

text \<open>A transport that answers every request with the same pair and leaves the world alone.\<close>

definition fixedClient :: "'w Response option \<Rightarrow> error option \<Rightarrow> ('w, 'c, 'u) HTTPClient" where
  "fixedClient resp err = (\<lambda>req s. (Returns resp err, s))"

text \<open>
  A transport that counts its calls in the first component of the world and answers
  with an error whose message is the \<open>Authorization\<close> value of the request it received.
\<close>

definition echoClient :: "(nat \<times> nat, 'c, 'u) HTTPClient" where
  "echoClient =
     (\<lambda>req (i, k). (Returns None (Some (New (Header_Get (Header req) ''Authorization''))),
                     (Suc i, k)))"

text \<open>A URL parser that accepts every string but the empty one.\<close>

definition parseURL :: "string \<Rightarrow> error + string" where
  "parseURL url = (if url = [] then Inl (New ''empty url'') else Inr url)"

text \<open>
  The request that \<open>Get\<close> builds for \<^verbatim>\<open>https://example.com\<close>, the same request with a nil
  header map (the Go literal \<^verbatim>\<open>&http.Request{Method: "GET", URL: u}\<close>), and a response
  with status 200.
\<close>

definition exampleRequest :: "(nat \<times> nat, unit, string) Request" where
  "exampleRequest =
     \<lparr>Method = ''GET'', URL = ''https://example.com'', Header = HeaderMap Map.empty,
      ReqBody = None, Ctx = ()\<rparr>"

definition nilHeaderRequest :: "(nat \<times> nat, unit, string) Request" where
  "nilHeaderRequest =
     \<lparr>Method = ''GET'', URL = ''https://example.com'', Header = NilHeader,
      ReqBody = None, Ctx = ()\<rparr>"

definition bodyResponse :: "(nat \<times> nat) ReadCloser option \<Rightarrow> (nat \<times> nat) Response" where
  "bodyResponse rc = \<lparr>StatusCode = 200, RespHeader = HeaderMap Map.empty, Body = rc\<rparr>"

section \<open>Facts about the library functions\<close>

subsection \<open>Base64\<close>

lemma encodeStd_length: "length encodeStd = 64"
  by (simp add: encodeStd_def)

lemma encodeStd_distinct: "distinct encodeStd"
  by (simp add: encodeStd_def)

lemma decodeMap_encode6: "n < 64 \<Longrightarrow> decodeMap (encode6 n) = Some n"
  unfolding decodeMap_def encode6_def
  using map_of_zip_nth[of encodeStd "[0..<64]" n]
  by (simp add: encodeStd_length encodeStd_distinct)

lemma encode6_in: "n < 64 \<Longrightarrow> encode6 n \<in> set encodeStd"
  by (simp add: encode6_def encodeStd_length)

lemma pad_not_encodeStd:
  "CHR ''='' \<notin> set encodeStd" "CHR 0x0D \<notin> set encodeStd" "CHR 0x0A \<notin> set encodeStd"
  by (simp_all add: encodeStd_def)

lemma encode6_not_pad: "n < 64 \<Longrightarrow> encode6 n \<noteq> CHR ''=''"
  using encode6_in[of n] pad_not_encodeStd(1) by metis

lemma sextet_lt: "(n::nat) mod 64 < 64"
  by simp

lemma octets_of_val:
  fixes a b c :: nat
  assumes "a < 256" "b < 256" "c < 256"
  shows "(a * 65536 + b * 256 + c) div 65536 mod 256 = a"
    and "(a * 65536 + b * 256 + c) div 256 mod 256 = b"
    and "(a * 65536 + b * 256 + c) mod 256 = c"
proof -
  have "(a * 65536 + b * 256 + c) div 65536 = a" using assms by simp
  then show "(a * 65536 + b * 256 + c) div 65536 mod 256 = a" using assms by simp
  have h: "(a * 65536 + b * 256 + c) = (a * 256 + b) * 256 + c" by simp
  then have "(a * 65536 + b * 256 + c) div 256 = a * 256 + b" using assms by simp
  then show "(a * 65536 + b * 256 + c) div 256 mod 256 = b" using assms by simp
  have "\<And>x::nat. (x * 256 + c) mod 256 = c" using assms by simp
  then have k: "((a * 256 + b) * 256 + c) mod 256 = c" .
  show "(a * 65536 + b * 256 + c) mod 256 = c" unfolding h by (rule k)
qed

lemma sextets_recompose:
  fixes val :: nat
  assumes "val < 16777216"
  shows "(val div 262144 mod 64) * 262144 + (val div 4096 mod 64) * 4096
           + (val div 64 mod 64) * 64 + val mod 64 = val"
proof -
  define x1 where "x1 = val div 64"
  define x2 where "x2 = x1 div 64"
  define x3 where "x3 = x2 div 64"
  have d2: "val div 4096 = x2" unfolding x2_def x1_def by (simp add: div_mult2_eq)
  have d3: "val div 262144 = x3" unfolding x3_def x2_def x1_def by (simp add: div_mult2_eq)
  have s3: "x3 < 64" unfolding d3[symmetric] using assms by simp
  have a: "val = x1 * 64 + val mod 64" unfolding x1_def by simp
  have b: "x1 = x2 * 64 + x1 mod 64" unfolding x2_def by simp
  have c: "x2 = x3 * 64 + x2 mod 64" unfolding x3_def by simp
  have m3: "x3 mod 64 = x3" using s3 by simp
  have "x3 * 262144 + (x2 mod 64) * 4096 + (x1 mod 64) * 64 + val mod 64 = val"
    using a b c by simp
  then show ?thesis unfolding d2 d3 x1_def[symmetric] m3 by simp
qed

lemma byte_uint: "byte (uint c) = c"
  by (simp add: byte_def uint_def)

lemma byte_mod: "byte (n mod 256) = byte n"
  by (simp add: byte_def)

lemma uint_lt: "uint c < 256"
  by (simp add: uint_def)

lemma val3_lt: "val3 a b c < 16777216"
  using uint_lt[of a] uint_lt[of b] uint_lt[of c] unfolding val3_def by linarith

lemma val3_bytes:
  "byte (val3 a b c div 65536) = a" "byte (val3 a b c div 256) = b" "byte (val3 a b c) = c"
proof -
  note o = octets_of_val[OF uint_lt[of a] uint_lt[of b] uint_lt[of c]]
  show "byte (val3 a b c div 65536) = a"
    using o(1) byte_mod[of "val3 a b c div 65536"] by (simp add: val3_def byte_uint)
  show "byte (val3 a b c div 256) = b"
    using o(2) byte_mod[of "val3 a b c div 256"] by (simp add: val3_def byte_uint)
  show "byte (val3 a b c) = c"
    using o(3) byte_mod[of "val3 a b c"] by (simp add: val3_def byte_uint)
qed


lemma decode_digits_full:
  assumes "d0 < 64" "d1 < 64" "d2 < 64" "d3 < 64"
  shows "decode_quanta (encode6 d0 # encode6 d1 # encode6 d2 # encode6 d3 # src)
         = map_option (\<lambda>dst. byte ((d0 * 262144 + d1 * 4096 + d2 * 64 + d3) div 65536)
                               # byte ((d0 * 262144 + d1 * 4096 + d2 * 64 + d3) div 256)
                               # byte (d0 * 262144 + d1 * 4096 + d2 * 64 + d3) # dst)
             (decode_quanta src)"
proof (cases src)
  case Nil
  then show ?thesis
    using assms by (simp add: decodeMap_encode6 encode6_not_pad Let_def)
next
  case (Cons r rs)
  then show ?thesis
    using assms by (simp add: decodeMap_encode6 Let_def)
qed

lemma decode_digits_two:
  assumes "d0 < 64" "d1 < 64" "d2 < 64"
  shows "decode_quanta [encode6 d0, encode6 d1, encode6 d2, CHR ''='']
         = Some [byte ((d0 * 262144 + d1 * 4096 + d2 * 64) div 65536),
                 byte ((d0 * 262144 + d1 * 4096 + d2 * 64) div 256)]"
  using assms by (simp add: decodeMap_encode6 encode6_not_pad Let_def)

lemma decode_digits_one:
  assumes "d0 < 64" "d1 < 64"
  shows "decode_quanta [encode6 d0, encode6 d1, CHR ''='', CHR ''='']
         = Some [byte ((d0 * 262144 + d1 * 4096) div 65536)]"
  using assms by (simp add: decodeMap_encode6 Let_def)

lemma decode_full_quantum:
  assumes "v < 16777216"
  shows "decode_quanta (encode6 (v div 262144 mod 64) # encode6 (v div 4096 mod 64)
            # encode6 (v div 64 mod 64) # encode6 (v mod 64) # src)
         = map_option (\<lambda>dst. byte (v div 65536) # byte (v div 256) # byte v # dst)
             (decode_quanta src)"
  using decode_digits_full[OF sextet_lt sextet_lt sextet_lt sextet_lt,
          of "v div 262144" "v div 4096" "v div 64" v src]
  by (simp only: sextets_recompose[OF assms])

lemma decode_two_quantum:
  assumes "v < 16777216" "v mod 64 = 0"
  shows "decode_quanta [encode6 (v div 262144 mod 64), encode6 (v div 4096 mod 64),
            encode6 (v div 64 mod 64), CHR ''='']
         = Some [byte (v div 65536), byte (v div 256)]"
proof -
  have e: "(v div 262144 mod 64) * 262144 + (v div 4096 mod 64) * 4096
          + (v div 64 mod 64) * 64 = v"
    using sextets_recompose[OF assms(1)] by (simp only: assms(2) add_0_right)
  show ?thesis
    using decode_digits_two[OF sextet_lt sextet_lt sextet_lt,
            of "v div 262144" "v div 4096" "v div 64"]
    by (simp only: e)
qed

lemma decode_one_quantum:
  assumes "v < 16777216" "v mod 64 = 0" "v div 64 mod 64 = 0"
  shows "decode_quanta [encode6 (v div 262144 mod 64), encode6 (v div 4096 mod 64),
            CHR ''='', CHR ''='']
         = Some [byte (v div 65536)]"
proof -
  have e: "(v div 262144 mod 64) * 262144 + (v div 4096 mod 64) * 4096 = v"
    using sextets_recompose[OF assms(1)]
    by (simp only: assms(2,3) mult_zero_left add_0_right)
  show ?thesis
    using decode_digits_one[OF sextet_lt sextet_lt, of "v div 262144" "v div 4096"]
    by (simp only: e)
qed

lemma uint_zero: "uint (CHR 0x00) = 0"
  by (simp add: uint_def)

lemma EncodeToString_3:
  "EncodeToString (a # b # c # src) =
     encode6 (val3 a b c div 262144 mod 64) # encode6 (val3 a b c div 4096 mod 64)
       # encode6 (val3 a b c div 64 mod 64) # encode6 (val3 a b c mod 64) # EncodeToString src"
  by (simp add: val3_def Let_def)

lemma EncodeToString_2:
  "EncodeToString [a, b] =
     [encode6 (val3 a b (CHR 0x00) div 262144 mod 64),
      encode6 (val3 a b (CHR 0x00) div 4096 mod 64),
      encode6 (val3 a b (CHR 0x00) div 64 mod 64), CHR ''='']"
  by (simp add: val3_def Let_def uint_zero)

lemma EncodeToString_1:
  "EncodeToString [a] =
     [encode6 (val3 a (CHR 0x00) (CHR 0x00) div 262144 mod 64),
      encode6 (val3 a (CHR 0x00) (CHR 0x00) div 4096 mod 64), CHR ''='', CHR ''='']"
  by (simp add: val3_def Let_def uint_zero)

lemma decode_quanta_EncodeToString: "decode_quanta (EncodeToString src) = Some src"
proof (induction src rule: EncodeToString.induct)
  case (1 a b c src)
  have "decode_quanta (EncodeToString (a # b # c # src))
        = map_option (\<lambda>dst. byte (val3 a b c div 65536) # byte (val3 a b c div 256)
                               # byte (val3 a b c) # dst)
            (decode_quanta (EncodeToString src))"
    unfolding EncodeToString_3 by (rule decode_full_quantum[OF val3_lt])
  then show ?case
    by (simp only: val3_bytes 1 option.map)
next
  case (2 a b)
  have m: "val3 a b (CHR 0x00) mod 64 = 0"
    by (simp add: val3_def uint_zero)
  have "decode_quanta (EncodeToString [a, b])
        = Some [byte (val3 a b (CHR 0x00) div 65536), byte (val3 a b (CHR 0x00) div 256)]"
    unfolding EncodeToString_2 by (rule decode_two_quantum[OF val3_lt m])
  then show ?case
    by (simp only: val3_bytes)
next
  case (3 a)
  have m: "val3 a (CHR 0x00) (CHR 0x00) mod 64 = 0"
    by (simp add: val3_def uint_zero)
  have n: "val3 a (CHR 0x00) (CHR 0x00) div 64 mod 64 = 0"
    by (simp add: val3_def uint_zero)
  have "decode_quanta (EncodeToString [a])
        = Some [byte (val3 a (CHR 0x00) (CHR 0x00) div 65536)]"
    unfolding EncodeToString_1 by (rule decode_one_quantum[OF val3_lt m n])
  then show ?case
    by (simp only: val3_bytes)
next
  case 4
  show ?case by simp
qed

lemma EncodeToString_chars:
  "set (EncodeToString src) \<subseteq> insert (CHR ''='') (set encodeStd)"
proof (induction src rule: EncodeToString.induct)
  case (1 a b c src)
  then show ?case
    unfolding EncodeToString_3 using encode6_in[OF sextet_lt] by auto
next
  case (2 a b)
  show ?case
    unfolding EncodeToString_2 using encode6_in[OF sextet_lt] by auto
next
  case (3 a)
  show ?case
    unfolding EncodeToString_1 using encode6_in[OF sextet_lt] by auto
next
  case 4
  show ?case by simp
qed

lemma filter_EncodeToString:
  "filter (\<lambda>c. c \<noteq> CHR 0x0D \<and> c \<noteq> CHR 0x0A) (EncodeToString src) = EncodeToString src"
proof -
  have "\<forall>c \<in> set (EncodeToString src). c \<noteq> CHR 0x0D \<and> c \<noteq> CHR 0x0A"
    using EncodeToString_chars[of src] pad_not_encodeStd(2,3) by auto
  then show ?thesis by (simp add: filter_id_conv)
qed

subsection \<open>Cutting at the colon\<close>

lemma takeWhile_before_sep:
  "sep \<notin> set xs \<Longrightarrow> takeWhile (\<lambda>c. c \<noteq> sep) (xs @ sep # ys) = xs"
  by (induction xs) auto

lemma dropWhile_before_sep:
  "sep \<notin> set xs \<Longrightarrow> dropWhile (\<lambda>c. c \<noteq> sep) (xs @ sep # ys) = sep # ys"
  by (induction xs) auto

lemma Cut_first_colon:
  assumes "CHR '':'' \<notin> set username"
  shows "Cut (username @ '':'' @ password) (CHR '':'') = (username, password, True)"
  unfolding Cut_def
  using takeWhile_before_sep[OF assms, of password] dropWhile_before_sep[OF assms, of password]
  by simp

lemma EqualFold_refl: "EqualFold s s"
  by (simp add: EqualFold_def)

subsection \<open>Reading a body to its end\<close>

lemma ReadAll_loop_drains:
  "drains rd s ds err s' \<Longrightarrow>
     ReadAll_loop rd b s = Some ((b @ ds, if err = EOF then None else Some err), s')"
proof (induction arbitrary: b rule: drains.induct)
  case (drains_last s d err s')
  then show ?case by (subst ReadAll_loop.simps) simp
next
  case (drains_more s d s1 ds err s')
  show ?case
    by (subst ReadAll_loop.simps) (simp add: drains_more.hyps(1) drains_more.IH)
qed

lemma ReadAll_drains:
  "drains (Read rc) s ds err s' \<Longrightarrow>
     ReadAll rc s = Some ((ds, if err = EOF then None else Some err), s')"
  unfolding ReadAll_def using ReadAll_loop_drains[of "Read rc" s ds err s' "[]"] by simp

lemma drains_preserves:
  assumes "\<And>s. obs (snd (rd s)) = obs s"
  shows "drains rd s ds err s' \<Longrightarrow> obs s' = obs s"
proof (induction rule: drains.induct)
  case (drains_last s d err s')
  then show ?case using assms[of s] by simp
next
  case (drains_more s d s1 ds err s')
  then show ?case using assms[of s] by simp
qed

lemma drains_ReadAll_loop:
  "ReadAll_loop rd b s = Some y \<Longrightarrow>
     \<exists>ds err. drains rd s ds err (snd y) \<and> fst (fst y) = b @ ds
        \<and> snd (fst y) = (if err = EOF then None else Some err)"
proof (induction rd b s y rule: ReadAll_loop.raw_induct[rotated, consumes 1, case_names step])
  case (step loop rd b s y)
  obtain d e s1 where r: "rd s = ((d, e), s1)" by (metis prod.exhaust)
  show ?case
  proof (cases e)
    case None
    with step(2) r have "loop rd (b @ d) s1 = Some y" by simp
    from step(1)[OF this] obtain ds err where
      h: "drains rd s1 ds err (snd y)" "fst (fst y) = (b @ d) @ ds"
         "snd (fst y) = (if err = EOF then None else Some err)" by blast
    have "drains rd s (d @ ds) err (snd y)"
      using drains_more[of rd s d s1 ds err "snd y"] r None h(1) by simp
    then show ?thesis using h(2,3) by auto
  next
    case (Some err)
    with step(2) r have y: "y = ((b @ d, if err = EOF then None else Some err), s1)" by simp
    have "drains rd s d err s1" using drains_last[of rd s d err s1] r Some by simp
    then show ?thesis using y by auto
  qed
qed

section \<open>Facts about the program\<close>

lemma Do_apply: "Do fn req s = fn req s"
  by (simp add: Do_def)

lemma apply_middlewares_foldl:
  "apply_middlewares baseClient middlewares = foldl (\<lambda>t m. m t) baseClient middlewares"
  by (induction middlewares arbitrary: baseClient) simp_all

lemma apply_middlewares_snoc:
  "apply_middlewares baseClient (middlewares @ [m]) = m (apply_middlewares baseClient middlewares)"
  by (induction middlewares arbitrary: baseClient) simp_all

lemma apply_request_decorators:
  "apply_middlewares baseClient (map request_decorator fs) req
     = baseClient (foldr (\<lambda>f r. f r) fs req)"
proof (induction fs arbitrary: baseClient)
  case Nil
  show ?case by simp
next
  case (Cons f fs)
  have "apply_middlewares baseClient (map request_decorator (f # fs)) req
          = apply_middlewares (request_decorator f baseClient) (map request_decorator fs) req"
    by simp
  also have "\<dots> = request_decorator f baseClient (foldr (\<lambda>f r. f r) fs req)"
    by (rule Cons.IH)
  also have "\<dots> = baseClient (foldr (\<lambda>f r. f r) (f # fs) req)"
    by (simp add: request_decorator_def Do_def)
  finally show ?case .
qed

lemma SetBasicAuth_allocated:
  "Header req = HeaderMap m \<Longrightarrow>
     SetBasicAuth req username password
       = Some (req\<lparr>Header := HeaderMap (m(''Authorization'' \<mapsto>
                 [''Basic '' @ basicAuth username password]))\<rparr>)"
  by (simp add: SetBasicAuth_def)

lemma BasicAuthMiddleware_allocated:
  "Header req = HeaderMap m \<Longrightarrow>
     BasicAuthMiddleware username password client req s
       = client (req\<lparr>Header := HeaderMap (m(''Authorization'' \<mapsto>
                   [''Basic '' @ basicAuth username password]))\<rparr>) s"
  by (simp add: BasicAuthMiddleware_def SetBasicAuth_allocated Do_def)

lemma APIKeyAuthMiddleware_allocated:
  "Header req = HeaderMap m \<Longrightarrow>
     APIKeyAuthMiddleware apiKey client req s
       = client (req\<lparr>Header := HeaderMap (m(''Authorization'' \<mapsto> [''Bearer '' @ apiKey]))\<rparr>) s"
  by (simp add: APIKeyAuthMiddleware_def Do_def)

lemma BasicAuthMiddleware_nil:
  "Header req = NilHeader \<Longrightarrow> BasicAuthMiddleware username password client req s = (Panics, s)"
  by (simp add: BasicAuthMiddleware_def SetBasicAuth_def)

lemma APIKeyAuthMiddleware_nil:
  "Header req = NilHeader \<Longrightarrow> APIKeyAuthMiddleware apiKey client req s = (Panics, s)"
  by (simp add: APIKeyAuthMiddleware_def)

subsection \<open>Basic authentication\<close>

lemma DecodeString_EncodeToString: "DecodeString (EncodeToString src) = Some src"
  by (simp add: DecodeString_def filter_EncodeToString decode_quanta_EncodeToString)

lemma parseBasicAuth_Basic:
  "parseBasicAuth (''Basic '' @ EncodeToString cs) =
     (case Cut cs (CHR '':'') of
        (username, password, True) \<Rightarrow> Some (username, password)
      | (username, password, False) \<Rightarrow> None)"
  by (simp add: parseBasicAuth_def EqualFold_refl DecodeString_EncodeToString)

lemma Header_Get_Authorization:
  "Header_Get (HeaderMap (m(''Authorization'' \<mapsto> [v]))) ''Authorization'' = v"
  by simp

lemma EncodeToString_colon: "EncodeToString ''a:b:c'' = ''YTpiOmM=''"
  by (simp add: uint_def encode6_def encodeStd_def)

lemma EncodeToString_Aladdin: "EncodeToString ''Aladdin:open sesame'' = ''QWxhZGRpbjpvcGVuIHNlc2FtZQ==''"
  by (simp add: uint_def encode6_def encodeStd_def)

subsection \<open>The stages of \<open>Get\<close>\<close>

lemma Get_built:
  assumes "NewRequestWithContext parse ctx ''GET'' url None = Inr req"
  shows "Get parse c ctx url s =
     (case Do (httpClient c) req s of
        (Panics, s1) \<Rightarrow> Some (Panic, s1)
      | (Returns resp (Some err), s1) \<Rightarrow>
          Some (Return None (Some (Errorf_w ''request failed: '' err)), s1)
      | (Returns None None, s1) \<Rightarrow> Some (Panic, s1)
      | (Returns (Some r) None, s1) \<Rightarrow>
          (case Body r of
             None \<Rightarrow> Some (Panic, s1)
           | Some rc \<Rightarrow>
               (case ReadAll rc s1 of
                  None \<Rightarrow> None
                | Some ((body, Some err), s2) \<Rightarrow>
                    Some (Return None
                            (Some (Errorf_w ''failed to read response body: '' err)),
                          snd (Close rc s2))
                | Some ((body, None), s2) \<Rightarrow>
                    Some (Return (Some body) None, snd (Close rc s2)))))"
  unfolding Get_def using assms by simp

lemma Get_body_read:
  assumes "NewRequestWithContext parse ctx ''GET'' url None = Inr req"
    and "Do (httpClient c) req s = (Returns (Some r) None, s1)"
    and "Body r = Some rc"
    and "drains (Read rc) s1 ds err s2"
  shows "Get parse c ctx url s =
     Some (if err = EOF then Return (Some ds) None
           else Return None (Some (Errorf_w ''failed to read response body: '' err)),
           snd (Close rc s2))"
  unfolding Get_built[OF assms(1)] using assms(2,3) ReadAll_drains[OF assms(4)] by simp

subsection \<open>The test doubles\<close>

lemma example_built:
  "NewRequestWithContext parseURL () ''GET'' ''https://example.com'' None = Inr exampleRequest"
  by (simp add: NewRequestWithContext_def parseURL_def exampleRequest_def)

lemma example_Do:
  "Do (httpClient \<lparr>httpClient = fixedClient resp err\<rparr>) req s = (Returns resp err, s)"
  by (simp add: Do_def fixedClient_def)

lemma Do_fixedClient: "Do (fixedClient resp err) req s = (Returns resp err, s)"
  by (simp add: Do_def fixedClient_def)

lemma scriptBody_one_chunk:
  "drains (Read (scriptBody [chunk] final)) (0::nat, 0::nat) chunk final (2::nat, 0::nat)"
proof -
  have "drains (Read (scriptBody [chunk] final)) (0::nat, 0::nat) (chunk @ []) final (2::nat, 0::nat)"
    by (rule drains_more[of _ _ _ "(1::nat, 0::nat)"], simp add: scriptBody_def, rule drains_last,
        simp add: scriptBody_def)
  then show ?thesis by simp
qed

lemma scriptBody_Close: "snd (Close (scriptBody chunks final) (i, k)) = (i, Suc k)"
  by (simp add: scriptBody_def)

lemma scriptBody_Read_keeps_closes: "snd (snd (Read (scriptBody chunks final) w)) = snd w"
  by (cases w) (simp add: scriptBody_def)

lemma scriptBody_Close_counts:
  "snd (snd (Close (scriptBody chunks final) w)) = Suc (snd w)"
  by (cases w) (simp add: scriptBody_def)

lemma exampleRequest_Header: "Header exampleRequest = HeaderMap Map.empty"
  by (simp add: exampleRequest_def)

lemma nilHeaderRequest_Header: "Header nilHeaderRequest = NilHeader"
  by (simp add: nilHeaderRequest_def)

lemma echoClient_apply:
  "echoClient req (i, k)
     = (Returns None (Some (New (Header_Get (Header req) ''Authorization''))), (Suc i, k))"
  by (simp add: echoClient_def)

section \<open>The properties\<close>

text \<open>
  Claim C1.  For every base transport and every list of middlewares, the client built
  by \<open>NewCustomClient\<close> holds the transport obtained by folding left over the list:
  each further middleware wraps what the earlier ones built.  On a request the
  last-listed middleware therefore acts first and the first-listed last: for
  request-rewriting middlewares the base transport receives \<open>f1 (f2 (\<dots> (fN req)))\<close>.
  On a request with an allocated header map the two middlewares of the program are
  such rewritings, and of the two, which both set \<open>Authorization\<close>, it is the value of
  the first-listed one that the base transport sees.
\<close>

theorem NewCustomClient_composition_order:
  "httpClient (NewCustomClient baseClient middlewares)
     = foldl (\<lambda>t m. m t) baseClient middlewares
   \<and> httpClient (NewCustomClient baseClient (middlewares @ [m]))
       = m (httpClient (NewCustomClient baseClient middlewares))
   \<and> httpClient (NewCustomClient baseClient (map request_decorator fs)) req
       = baseClient (foldr (\<lambda>f r. f r) fs req)
   \<and> (Header req = HeaderMap hm \<longrightarrow>
        BasicAuthMiddleware username password baseClient req
          = request_decorator
              (\<lambda>r. r\<lparr>Header := HeaderMap (hm(''Authorization'' \<mapsto>
                     [''Basic '' @ basicAuth username password]))\<rparr>) baseClient req)
   \<and> (Header req = HeaderMap hm \<longrightarrow>
        APIKeyAuthMiddleware apiKey baseClient req
          = request_decorator
              (\<lambda>r. r\<lparr>Header := HeaderMap (hm(''Authorization'' \<mapsto> [''Bearer '' @ apiKey]))\<rparr>)
              baseClient req)
   \<and> (Header req = HeaderMap hm \<longrightarrow>
        httpClient (NewCustomClient baseClient
          [APIKeyAuthMiddleware apiKey, BasicAuthMiddleware username password]) req
        = baseClient
            (req\<lparr>Header := HeaderMap (hm(''Authorization'' \<mapsto> [''Bearer '' @ apiKey]))\<rparr>))
   \<and> (Header req = HeaderMap hm \<longrightarrow>
        httpClient (NewCustomClient baseClient
          [BasicAuthMiddleware username password, APIKeyAuthMiddleware apiKey]) req
        = baseClient
            (req\<lparr>Header := HeaderMap (hm(''Authorization'' \<mapsto>
                     [''Basic '' @ basicAuth username password]))\<rparr>))"
proof (intro conjI impI)
  show "httpClient (NewCustomClient baseClient middlewares)
          = foldl (\<lambda>t m. m t) baseClient middlewares"
    by (simp add: NewCustomClient_def apply_middlewares_foldl)
  show "httpClient (NewCustomClient baseClient (middlewares @ [m]))
          = m (httpClient (NewCustomClient baseClient middlewares))"
    by (simp add: NewCustomClient_def apply_middlewares_snoc)
  show "httpClient (NewCustomClient baseClient (map request_decorator fs)) req
          = baseClient (foldr (\<lambda>f r. f r) fs req)"
    by (simp add: NewCustomClient_def apply_request_decorators)
next
  assume h: "Header req = HeaderMap hm"
  show "BasicAuthMiddleware username password baseClient req
          = request_decorator
              (\<lambda>r. r\<lparr>Header := HeaderMap (hm(''Authorization'' \<mapsto>
                     [''Basic '' @ basicAuth username password]))\<rparr>) baseClient req"
    by (rule ext) (simp add: BasicAuthMiddleware_allocated[OF h] request_decorator_def Do_def)
next
  assume h: "Header req = HeaderMap hm"
  show "APIKeyAuthMiddleware apiKey baseClient req
          = request_decorator
              (\<lambda>r. r\<lparr>Header := HeaderMap (hm(''Authorization'' \<mapsto> [''Bearer '' @ apiKey]))\<rparr>)
              baseClient req"
    by (rule ext) (simp add: APIKeyAuthMiddleware_allocated[OF h] request_decorator_def Do_def)
next
  assume h: "Header req = HeaderMap hm"
  have "httpClient (NewCustomClient baseClient
          [APIKeyAuthMiddleware apiKey, BasicAuthMiddleware username password]) req s
        = baseClient
            (req\<lparr>Header := HeaderMap (hm(''Authorization'' \<mapsto> [''Bearer '' @ apiKey]))\<rparr>) s"
    for s
    by (simp add: NewCustomClient_def BasicAuthMiddleware_allocated[OF h]
          APIKeyAuthMiddleware_allocated)
  then show "httpClient (NewCustomClient baseClient
          [APIKeyAuthMiddleware apiKey, BasicAuthMiddleware username password]) req
        = baseClient
            (req\<lparr>Header := HeaderMap (hm(''Authorization'' \<mapsto> [''Bearer '' @ apiKey]))\<rparr>)"
    by (rule ext)
next
  assume h: "Header req = HeaderMap hm"
  have "httpClient (NewCustomClient baseClient
          [BasicAuthMiddleware username password, APIKeyAuthMiddleware apiKey]) req s
        = baseClient
            (req\<lparr>Header := HeaderMap (hm(''Authorization'' \<mapsto>
                     [''Basic '' @ basicAuth username password]))\<rparr>) s"
    for s
    by (simp add: NewCustomClient_def APIKeyAuthMiddleware_allocated[OF h]
          BasicAuthMiddleware_allocated)
  then show "httpClient (NewCustomClient baseClient
          [BasicAuthMiddleware username password, APIKeyAuthMiddleware apiKey]) req
        = baseClient
            (req\<lparr>Header := HeaderMap (hm(''Authorization'' \<mapsto>
                     [''Basic '' @ basicAuth username password]))\<rparr>)"
    by (rule ext)
qed

theorem NewCustomClient_composition_order_witness:
  "Header exampleRequest = HeaderMap Map.empty
   \<and> httpClient (NewCustomClient echoClient
         [APIKeyAuthMiddleware ''key'', BasicAuthMiddleware ''user'' ''pass''])
       exampleRequest (0::nat, 0::nat)
     = (Returns None (Some (New ''Bearer key'')), (1::nat, 0::nat))"
proof -
  note t = NewCustomClient_composition_order[of echoClient "[]" id "[]" exampleRequest
      Map.empty "''user''" "''pass''" "''key''"]
  from t have "Header exampleRequest = HeaderMap Map.empty \<longrightarrow>
      httpClient (NewCustomClient echoClient
        [APIKeyAuthMiddleware ''key'', BasicAuthMiddleware ''user'' ''pass'']) exampleRequest
      = echoClient
          (exampleRequest\<lparr>Header := HeaderMap [''Authorization'' \<mapsto> [''Bearer '' @ ''key'']]\<rparr>)"
    by (elim conjE)
  with exampleRequest_Header
  have "httpClient (NewCustomClient echoClient
        [APIKeyAuthMiddleware ''key'', BasicAuthMiddleware ''user'' ''pass'']) exampleRequest
      = echoClient
          (exampleRequest\<lparr>Header := HeaderMap [''Authorization'' \<mapsto> [''Bearer '' @ ''key'']]\<rparr>)"
    by (rule rev_mp)
  then show ?thesis
    by (simp add: exampleRequest_Header echoClient_apply)
qed

text \<open>
  Claim C2, as amended.  For every request with an allocated header map and every
  username and password, the transport made by \<open>BasicAuthMiddleware\<close> hands the wrapped
  client the request with its \<open>Authorization\<close> header set to exactly \<^verbatim>\<open>Basic \<close> followed
  by the base64 encoding of \<^verbatim>\<open>username:password\<close>; and when the username contains no
  colon, decoding that value gives back the username and the password.
\<close>

theorem BasicAuthMiddleware_header_roundtrip:
  assumes "Header req = HeaderMap m"
  shows "BasicAuthMiddleware username password client req s
           = client (req\<lparr>Header := HeaderMap (m(''Authorization'' \<mapsto>
                       [''Basic '' @ EncodeToString (username @ '':'' @ password)]))\<rparr>) s
         \<and> Header_Get (HeaderMap (m(''Authorization'' \<mapsto>
                [''Basic '' @ EncodeToString (username @ '':'' @ password)]))) ''Authorization''
             = ''Basic '' @ EncodeToString (username @ '':'' @ password)
         \<and> (CHR '':'' \<notin> set username \<longrightarrow>
              parseBasicAuth (Header_Get (HeaderMap (m(''Authorization'' \<mapsto>
                [''Basic '' @ EncodeToString (username @ '':'' @ password)]))) ''Authorization'')
              = Some (username, password))"
proof -
  have "parseBasicAuth (''Basic '' @ EncodeToString (username @ '':'' @ password))
          = Some (username, password)"
    if "CHR '':'' \<notin> set username"
    unfolding parseBasicAuth_Basic Cut_first_colon[OF that] by simp
  then show ?thesis
    unfolding Header_Get_Authorization
    using BasicAuthMiddleware_allocated[OF assms, of username password client s]
    by (simp add: basicAuth_def)
qed

theorem BasicAuthMiddleware_header_roundtrip_witness:
  "Header exampleRequest = HeaderMap Map.empty
   \<and> CHR '':'' \<notin> set ''Aladdin''
   \<and> BasicAuthMiddleware ''Aladdin'' ''open sesame'' echoClient exampleRequest (0::nat, 0::nat)
       = (Returns None (Some (New ''Basic QWxhZGRpbjpvcGVuIHNlc2FtZQ=='')), (1::nat, 0::nat))
   \<and> parseBasicAuth ''Basic QWxhZGRpbjpvcGVuIHNlc2FtZQ=='' = Some (''Aladdin'', ''open sesame'')"
proof -
  have h: "CHR '':'' \<notin> set ''Aladdin''" by simp
  have e: "EncodeToString (''Aladdin'' @ '':'' @ ''open sesame'') = ''QWxhZGRpbjpvcGVuIHNlc2FtZQ==''"
    using EncodeToString_Aladdin by simp
  have a: "''Basic '' @ ''QWxhZGRpbjpvcGVuIHNlc2FtZQ=='' = ''Basic QWxhZGRpbjpvcGVuIHNlc2FtZQ==''"
    by simp
  note t = BasicAuthMiddleware_header_roundtrip[OF exampleRequest_Header,
      of "''Aladdin''" "''open sesame''" echoClient "(0, 0)", unfolded e a]
  from t have m: "BasicAuthMiddleware ''Aladdin'' ''open sesame'' echoClient exampleRequest
        (0::nat, 0::nat)
      = echoClient (exampleRequest\<lparr>Header := HeaderMap [''Authorization'' \<mapsto>
                      [''Basic QWxhZGRpbjpvcGVuIHNlc2FtZQ=='']]\<rparr>) (0, 0)"
    by (elim conjE)
  from t have g: "Header_Get (HeaderMap [''Authorization'' \<mapsto>
        [''Basic QWxhZGRpbjpvcGVuIHNlc2FtZQ=='']]) ''Authorization''
      = ''Basic QWxhZGRpbjpvcGVuIHNlc2FtZQ==''"
    by (elim conjE)
  from t have "CHR '':'' \<notin> set ''Aladdin'' \<longrightarrow>
      parseBasicAuth (Header_Get (HeaderMap [''Authorization'' \<mapsto>
        [''Basic QWxhZGRpbjpvcGVuIHNlc2FtZQ=='']]) ''Authorization'')
      = Some (''Aladdin'', ''open sesame'')"
    by (elim conjE)
  with h have "parseBasicAuth (Header_Get (HeaderMap [''Authorization'' \<mapsto>
        [''Basic QWxhZGRpbjpvcGVuIHNlc2FtZQ=='']]) ''Authorization'')
      = Some (''Aladdin'', ''open sesame'')"
    by (rule rev_mp)
  then have p: "parseBasicAuth ''Basic QWxhZGRpbjpvcGVuIHNlc2FtZQ==''
                  = Some (''Aladdin'', ''open sesame'')"
    unfolding g .
  have r: "BasicAuthMiddleware ''Aladdin'' ''open sesame'' echoClient exampleRequest
        (0::nat, 0::nat)
      = (Returns None (Some (New ''Basic QWxhZGRpbjpvcGVuIHNlc2FtZQ=='')), (1::nat, 0::nat))"
    unfolding m by (simp only: echoClient_apply) simp
  from exampleRequest_Header h r p show ?thesis by (intro conjI)
qed

text \<open>
  Claim C2 as stated fails twice.  Neither \<^verbatim>\<open>a:b\<close> nor \<^verbatim>\<open>c\<close> holds a control character;
  for the pairs \<^verbatim>\<open>(a:b, c)\<close> and \<^verbatim>\<open>(a, b:c)\<close> the wrapped client receives the same header
  value, and decoding it gives \<^verbatim>\<open>(a, b:c)\<close>.  And on a request whose header map is nil the
  middleware panics without calling the wrapped client (the count of calls, the first
  component of the world, stays 0), so no header is set.
\<close>

theorem BasicAuth_colon_in_username:
  "no_control ''a:b'' \<and> no_control ''c''
   \<and> BasicAuthMiddleware ''a:b'' ''c'' echoClient exampleRequest (0::nat, 0::nat)
       = (Returns None (Some (New ''Basic YTpiOmM='')), (1::nat, 0::nat))
   \<and> BasicAuthMiddleware ''a'' ''b:c'' echoClient exampleRequest (0::nat, 0::nat)
       = (Returns None (Some (New ''Basic YTpiOmM='')), (1::nat, 0::nat))
   \<and> parseBasicAuth ''Basic YTpiOmM='' = Some (''a'', ''b:c'')
   \<and> (''a'', ''b:c'') \<noteq> (''a:b'', ''c'')
   \<and> BasicAuthMiddleware ''a:b'' ''c'' echoClient nilHeaderRequest (0::nat, 0::nat)
       = (Panics, (0::nat, 0::nat))"
proof -
  have n: "no_control ''a:b''" "no_control ''c''"
    by (simp_all add: no_control_def uint_def)
  have c: "Cut ''a:b:c'' (CHR '':'') = (''a'', ''b:c'', True)"
    by (simp add: Cut_def)
  have "parseBasicAuth (''Basic '' @ EncodeToString ''a:b:c'') = Some (''a'', ''b:c'')"
    unfolding parseBasicAuth_Basic c by simp
  then have p: "parseBasicAuth ''Basic YTpiOmM='' = Some (''a'', ''b:c'')"
    unfolding EncodeToString_colon by simp
  have b: "basicAuth ''a:b'' ''c'' = ''YTpiOmM=''" "basicAuth ''a'' ''b:c'' = ''YTpiOmM=''"
    using EncodeToString_colon by (simp_all add: basicAuth_def)
  have m1: "BasicAuthMiddleware ''a:b'' ''c'' echoClient exampleRequest (0::nat, 0::nat)
       = (Returns None (Some (New ''Basic YTpiOmM='')), (1::nat, 0::nat))"
    unfolding BasicAuthMiddleware_allocated[OF exampleRequest_Header] b
    by (simp add: echoClient_apply)
  have m2: "BasicAuthMiddleware ''a'' ''b:c'' echoClient exampleRequest (0::nat, 0::nat)
       = (Returns None (Some (New ''Basic YTpiOmM='')), (1::nat, 0::nat))"
    unfolding BasicAuthMiddleware_allocated[OF exampleRequest_Header] b
    by (simp add: echoClient_apply)
  have d: "(''a'', ''b:c'') \<noteq> (''a:b'', ''c'')" by simp
  have z: "BasicAuthMiddleware ''a:b'' ''c'' echoClient nilHeaderRequest (0::nat, 0::nat)
       = (Panics, (0::nat, 0::nat))"
    by (rule BasicAuthMiddleware_nil[OF nilHeaderRequest_Header])
  from n m1 m2 p d z show ?thesis by (intro conjI)
qed

text \<open>
  Claim C3, as amended.  For every API key and every request with an allocated header
  map, the transport made by \<open>APIKeyAuthMiddleware\<close> hands the wrapped client the request
  with its \<open>Authorization\<close> header set to the single value \<^verbatim>\<open>Bearer \<close> followed by the
  key, and nothing else.
\<close>

theorem APIKeyAuthMiddleware_sets_Bearer:
  assumes "Header req = HeaderMap m"
  shows "APIKeyAuthMiddleware apiKey client req s
           = client (req\<lparr>Header := HeaderMap (m(''Authorization'' \<mapsto> [''Bearer '' @ apiKey]))\<rparr>) s
         \<and> Header_Get (HeaderMap (m(''Authorization'' \<mapsto> [''Bearer '' @ apiKey])))
               ''Authorization''
             = ''Bearer '' @ apiKey"
proof
  show "APIKeyAuthMiddleware apiKey client req s
      = client (req\<lparr>Header := HeaderMap (m(''Authorization'' \<mapsto> [''Bearer '' @ apiKey]))\<rparr>) s"
    by (rule APIKeyAuthMiddleware_allocated[OF assms])
  show "Header_Get (HeaderMap (m(''Authorization'' \<mapsto> [''Bearer '' @ apiKey]))) ''Authorization''
      = ''Bearer '' @ apiKey"
    by (rule Header_Get_Authorization)
qed

theorem APIKeyAuthMiddleware_sets_Bearer_witness:
  "Header exampleRequest = HeaderMap Map.empty
   \<and> APIKeyAuthMiddleware ''secret'' echoClient exampleRequest (0::nat, 0::nat)
       = (Returns None (Some (New ''Bearer secret'')), (1::nat, 0::nat))"
  using APIKeyAuthMiddleware_sets_Bearer[OF exampleRequest_Header, of "''secret''" echoClient
          "(0::nat, 0::nat)"]
  by (simp add: exampleRequest_Header echoClient_apply)

text \<open>
  Claim C3 as stated fails: on a request whose header map is nil, setting the header
  panics and the wrapped client is not called (the count of calls, the first component
  of the world, stays 0).
\<close>

theorem APIKeyAuthMiddleware_nil_header_panics:
  "Header nilHeaderRequest = NilHeader
   \<and> APIKeyAuthMiddleware ''secret'' echoClient nilHeaderRequest (0::nat, 0::nat)
       = (Panics, (0::nat, 0::nat))"
  by (simp add: nilHeaderRequest_Header APIKeyAuthMiddleware_nil)

text \<open>
  Claim C4.  When the URL is well formed, the send succeeds with a response, and its
  body delivers the bytes \<open>body\<close> and then ends (status 200 and \<^verbatim>\<open>hello\<close>, say), \<open>Get\<close>
  returns exactly \<open>body\<close> and a nil error.
\<close>

theorem Get_returns_body:
  assumes "NewRequestWithContext parse ctx ''GET'' url None = Inr req"
    and "Do (httpClient c) req s = (Returns (Some r) None, s1)"
    and "Body r = Some rc"
    and "drains (Read rc) s1 body EOF s2"
  shows "Get parse c ctx url s = Some (Return (Some body) None, snd (Close rc s2))"
  using Get_body_read[OF assms] by simp

theorem Get_returns_body_witness:
  "Get parseURL \<lparr>httpClient = fixedClient (Some (bodyResponse (Some (scriptBody [''hello''] EOF)))) None\<rparr>
     () ''https://example.com'' (0::nat, 0::nat)
   = Some (Return (Some ''hello'') None, (2::nat, 1::nat))"
  using Get_returns_body[where r = "bodyResponse (Some (scriptBody [''hello''] EOF))"
          and rc = "scriptBody [''hello''] EOF", OF example_built example_Do _ scriptBody_one_chunk]
  by (simp add: bodyResponse_def scriptBody_Close)

text \<open>
  Claim C5.  When the send of \<open>Get\<close> returns a non-nil error, \<open>Get\<close> returns nil bytes
  and an error whose message is \<^verbatim>\<open>request failed: \<close> followed by the message of the
  transport's error, and which unwraps to that very error.
\<close>

theorem Get_request_failed:
  assumes "NewRequestWithContext parse ctx ''GET'' url None = Inr req"
    and "Do (httpClient c) req s = (Returns resp (Some err), s1)"
  shows "Get parse c ctx url s
           = Some (Return None (Some (Errorf_w ''request failed: '' err)), s1)
         \<and> Error (Errorf_w ''request failed: '' err) = ''request failed: '' @ Error err
         \<and> (\<exists>before after.
               Error (Errorf_w ''request failed: '' err) = before @ ''request failed'' @ after)
         \<and> Unwrap (Errorf_w ''request failed: '' err) = Some err"
proof -
  have "Error (Errorf_w ''request failed: '' err) = [] @ ''request failed'' @ ('': '' @ Error err)"
    by simp
  then have "\<exists>before after.
      Error (Errorf_w ''request failed: '' err) = before @ ''request failed'' @ after"
    by blast
  then show ?thesis
    unfolding Get_built[OF assms(1)] using assms(2) by (simp split: option.split)
qed

theorem Get_request_failed_witness:
  "Get parseURL \<lparr>httpClient = fixedClient None (Some (New ''connection refused''))\<rparr>
     () ''https://example.com'' (0::nat, 0::nat)
   = Some (Return None (Some (Errorf_w ''request failed: '' (New ''connection refused''))), (0::nat, 0::nat))
   \<and> Error (Errorf_w ''request failed: '' (New ''connection refused''))
       = ''request failed: connection refused''"
  using Get_request_failed[where resp = None and err = "New ''connection refused''"
          and s = "(0::nat, 0::nat)", OF example_built example_Do]
  by simp

text \<open>
  Claim C6.  With no middleware, the client holds the base transport itself, and its
  \<open>Get\<close> applies the base transport, once, to the request it built: what \<open>Get\<close> returns
  and the world it leaves are determined by that one call as they are for any
  transport.
\<close>

theorem NewCustomClient_no_middleware:
  "httpClient (NewCustomClient baseClient []) = baseClient
   \<and> Do (httpClient (NewCustomClient baseClient [])) req s = baseClient req s
   \<and> Get parse (NewCustomClient baseClient []) ctx url s
       = (case NewRequestWithContext parse ctx ''GET'' url None of
            Inl err \<Rightarrow>
              Some (Return None (Some (Errorf_w ''failed to create request: '' err)), s)
          | Inr built \<Rightarrow>
              (case baseClient built s of
                 (Panics, s1) \<Rightarrow> Some (Panic, s1)
               | (Returns resp (Some err), s1) \<Rightarrow>
                   Some (Return None (Some (Errorf_w ''request failed: '' err)), s1)
               | (Returns None None, s1) \<Rightarrow> Some (Panic, s1)
               | (Returns (Some r) None, s1) \<Rightarrow>
                   (case Body r of
                      None \<Rightarrow> Some (Panic, s1)
                    | Some rc \<Rightarrow>
                        (case ReadAll rc s1 of
                           None \<Rightarrow> None
                         | Some ((body, Some err), s2) \<Rightarrow>
                             Some (Return None
                                     (Some (Errorf_w ''failed to read response body: '' err)),
                                   snd (Close rc s2))
                         | Some ((body, None), s2) \<Rightarrow>
                             Some (Return (Some body) None, snd (Close rc s2))))))"
proof -
  have loop: "apply_middlewares baseClient [] = baseClient"
    by simp
  then have c: "httpClient (NewCustomClient baseClient []) = baseClient"
    by (simp add: NewCustomClient_def)
  have d: "Do (httpClient (NewCustomClient baseClient [])) built w = baseClient built w"
    for built w
    unfolding c by (rule Do_apply)
  show ?thesis
    unfolding Get_def d by (simp add: c)
qed

theorem NewCustomClient_no_middleware_witness:
  "Get parseURL (NewCustomClient echoClient []) () ''https://example.com'' (0::nat, 0::nat)
   = Some (Return None (Some (Errorf_w ''request failed: '' (New []))), (1::nat, 0::nat))"
proof -
  note t = NewCustomClient_no_middleware[of echoClient exampleRequest "(0::nat, 0::nat)"
      parseURL "()" "''https://example.com''"]
  from t have "Get parseURL (NewCustomClient echoClient []) () ''https://example.com''
        (0::nat, 0::nat)
      = (case NewRequestWithContext parseURL () ''GET'' ''https://example.com'' None of
           Inl err \<Rightarrow>
             Some (Return None (Some (Errorf_w ''failed to create request: '' err)),
                   (0::nat, 0::nat))
         | Inr built \<Rightarrow>
             (case echoClient built (0::nat, 0::nat) of
                (Panics, s1) \<Rightarrow> Some (Panic, s1)
              | (Returns resp (Some err), s1) \<Rightarrow>
                  Some (Return None (Some (Errorf_w ''request failed: '' err)), s1)
              | (Returns None None, s1) \<Rightarrow> Some (Panic, s1)
              | (Returns (Some r) None, s1) \<Rightarrow>
                  (case Body r of
                     None \<Rightarrow> Some (Panic, s1)
                   | Some rc \<Rightarrow>
                       (case ReadAll rc s1 of
                          None \<Rightarrow> None
                        | Some ((body, Some err), s2) \<Rightarrow>
                            Some (Return None
                                    (Some (Errorf_w ''failed to read response body: '' err)),
                                  snd (Close rc s2))
                        | Some ((body, None), s2) \<Rightarrow>
                            Some (Return (Some body) None, snd (Close rc s2))))))"
    by (elim conjE)
  then show ?thesis
    by (simp add: example_built echoClient_apply exampleRequest_Header)
qed




text \<open>
  Claim C8.  When the send succeeds and the body reports an error other than the end
  of the stream, after delivering any bytes \<open>ds\<close>, \<open>Get\<close> returns nil bytes, none of
  \<open>ds\<close>, and an error that names the read stage and wraps the body's error.
\<close>

theorem Get_read_failure_no_partial_body:
  assumes "NewRequestWithContext parse ctx ''GET'' url None = Inr req"
    and "Do (httpClient c) req s = (Returns (Some r) None, s1)"
    and "Body r = Some rc"
    and "drains (Read rc) s1 ds err s2"
    and "err \<noteq> EOF"
  shows "Get parse c ctx url s
           = Some (Return None (Some (Errorf_w ''failed to read response body: '' err)),
                   snd (Close rc s2))
         \<and> Error (Errorf_w ''failed to read response body: '' err)
             = ''failed to read response body: '' @ Error err
         \<and> Unwrap (Errorf_w ''failed to read response body: '' err) = Some err"
  using Get_body_read[OF assms(1-4)] assms(5) by simp

theorem Get_read_failure_no_partial_body_witness:
  "Get parseURL
     \<lparr>httpClient = fixedClient
        (Some (bodyResponse (Some (scriptBody [''he''] (New ''unexpected EOF''))))) None\<rparr>
     () ''https://example.com'' (0::nat, 0::nat)
   = Some (Return None
             (Some (Errorf_w ''failed to read response body: '' (New ''unexpected EOF''))),
           (2::nat, 1::nat))"
  using Get_read_failure_no_partial_body[
          where r = "bodyResponse (Some (scriptBody [''he''] (New ''unexpected EOF'')))"
          and rc = "scriptBody [''he''] (New ''unexpected EOF'')",
          OF example_built example_Do _ scriptBody_one_chunk]
  by (simp add: bodyResponse_def scriptBody_Close)

text \<open>
  Claim C9, as amended.  When the send returns a nil error together with a response
  that carries a body, and reading the body comes to an end (at the end of the stream
  or with an error), \<open>Get\<close> returns and the world it leaves is the world after the read
  with \<open>Close\<close> applied to it once, on both return paths: whatever counts the \<open>Close\<close>
  calls of the body, and is left alone by its \<open>Read\<close>, is one higher than after the
  send.
\<close>

theorem Get_closes_body_once:
  assumes "NewRequestWithContext parse ctx ''GET'' url None = Inr req"
    and "Do (httpClient c) req s = (Returns (Some r) None, s1)"
    and "Body r = Some rc"
    and "\<And>w. closes (snd (Read rc w)) = closes w"
    and "\<And>w. closes (snd (Close rc w)) = Suc (closes w)"
  shows "(drains (Read rc) s1 ds err s2 \<longrightarrow>
            Get parse c ctx url s
              = Some (if err = EOF then Return (Some ds) None
                      else Return None
                             (Some (Errorf_w ''failed to read response body: '' err)),
                      snd (Close rc s2)))
         \<and> (Get parse c ctx url s = Some (result, w) \<longrightarrow> closes w = Suc (closes s1))"
proof (intro conjI impI)
  assume "drains (Read rc) s1 ds err s2"
  then show "Get parse c ctx url s
      = Some (if err = EOF then Return (Some ds) None
              else Return None (Some (Errorf_w ''failed to read response body: '' err)),
              snd (Close rc s2))"
    by (rule Get_body_read[OF assms(1-3)])
next
  assume g: "Get parse c ctx url s = Some (result, w)"
  obtain y where y: "ReadAll rc s1 = Some y" and w: "w = snd (Close rc (snd y))"
    using g unfolding Get_built[OF assms(1)]
    by (auto simp add: assms(2,3) split: option.splits prod.splits)
  obtain ds' err' where "drains (Read rc) s1 ds' err' (snd y)"
    using drains_ReadAll_loop[OF y[unfolded ReadAll_def]] by blast
  then have "closes (snd y) = closes s1"
    by (rule drains_preserves[of closes "Read rc", OF assms(4)])
  then show "closes w = Suc (closes s1)"
    unfolding w using assms(5)[of "snd y"] by simp
qed

theorem Get_closes_body_once_witness:
  "Get parseURL
     \<lparr>httpClient = fixedClient
        (Some (bodyResponse (Some (scriptBody [''he''] (New ''unexpected EOF''))))) None\<rparr>
     () ''https://example.com'' (0::nat, 0::nat)
   = Some (Return None
             (Some (Errorf_w ''failed to read response body: '' (New ''unexpected EOF''))),
           (2::nat, 1::nat))
   \<and> snd (2::nat, 1::nat) = Suc (snd (0::nat, 0::nat))"
proof -
  note t = Get_closes_body_once[
      where r = "bodyResponse (Some (scriptBody [''he''] (New ''unexpected EOF'')))"
      and rc = "scriptBody [''he''] (New ''unexpected EOF'')" and closes = snd
      and ds = "''he''" and err = "New ''unexpected EOF''" and ?s2.0 = "(2::nat, 0::nat)"
      and w = "(2::nat, 1::nat)"
      and result = "Return None
             (Some (Errorf_w ''failed to read response body: '' (New ''unexpected EOF'')))",
      OF example_built example_Do _ scriptBody_Read_keeps_closes scriptBody_Close_counts]
  have b: "Body (bodyResponse (Some (scriptBody [''he''] (New ''unexpected EOF''))))
             = Some (scriptBody [''he''] (New ''unexpected EOF''))"
    by (simp add: bodyResponse_def)
  from t[OF b] scriptBody_one_chunk[of "''he''" "New ''unexpected EOF''"]
  show ?thesis
    by (simp add: scriptBody_Close)
qed

text \<open>
  Claim C9 as stated fails: a send may return a nil error with a nil response, or with
  a response whose body is nil; \<open>Get\<close> then panics at the \<^verbatim>\<open>defer\<close> statement and
  nothing is closed (the count of \<open>Close\<close> calls, the second component of the world,
  stays 0).
\<close>

theorem Get_nil_error_no_close:
  "Do (httpClient \<lparr>httpClient = fixedClient None None\<rparr>) exampleRequest (0::nat, 0::nat)
     = (Returns None None, (0::nat, 0::nat))
   \<and> Get parseURL \<lparr>httpClient = fixedClient None None\<rparr> () ''https://example.com'' (0::nat, 0::nat)
       = Some (Panic, (0::nat, 0::nat))
   \<and> Get parseURL \<lparr>httpClient = fixedClient (Some (bodyResponse None)) None\<rparr>
         () ''https://example.com'' (0::nat, 0::nat)
       = Some (Panic, (0::nat, 0::nat))"
  by (simp add: Get_built[OF example_built] Do_fixedClient bodyResponse_def)

text \<open>
  Claim C10.  When the send returns a nil response together with a nil error, \<open>Get\<close>
  panics: it dereferences the nil response at the \<^verbatim>\<open>defer\<close> statement.  So \<open>Get\<close> is
  free of this panic only for transports that never return that pair.
\<close>

theorem Get_nil_response_panics:
  assumes "NewRequestWithContext parse ctx ''GET'' url None = Inr req"
    and "Do (httpClient c) req s = (Returns None None, s1)"
  shows "Get parse c ctx url s = Some (Panic, s1)"
  unfolding Get_built[OF assms(1)] using assms(2) by simp

theorem Get_nil_response_panics_witness:
  "Get parseURL \<lparr>httpClient = fixedClient None None\<rparr> () ''https://example.com'' (0::nat, 0::nat)
   = Some (Panic, (0::nat, 0::nat))"
  using Get_nil_response_panics[where s = "(0::nat, 0::nat)", OF example_built example_Do]
  by simp

end
